theory Spec2Isabelle
  imports Main
begin

section \<open>The replication update loop of \<^verbatim>\<open>nominatim/clicmd/replication.py\<close>\<close>

text \<open>
  The module drives four collaborators that live outside it: the database connection,
  the status table (\<^verbatim>\<open>db.status\<close>), the replication client
  (\<^verbatim>\<open>tools.replication\<close>) and the indexer. The embedding records every call to a
  collaborator, with its arguments, as an event of a trace, and takes what a collaborator
  returns from an environment: the n-th reading of the clock, the outcome of the n-th call
  of \<^verbatim>\<open>replication.update\<close>, the batch date returned by the n-th call of
  \<^verbatim>\<open>status.get_status\<close>. The calls to the database, the status table, the
  replication client and the indexer are taken to return: an exception raised inside one
  of them (a lost connection) leaves the loop and is not part of the embedding. The
  exceptions the module raises itself, the unbound local variable and the two errors with
  which \<^verbatim>\<open>time.sleep\<close> refuses a duration are values of the result type.
\<close>

subsection \<open>Data\<close>

text \<open>
  A \<^verbatim>\<open>datetime\<close> is a number of microseconds since the epoch and a
  \<^verbatim>\<open>timedelta\<close> a number of microseconds, the resolution of both Python types.
\<close>

type_synonym timestamp = int
type_synonym timedelta = int
type_synonym connection = nat

text \<open>
  A \<^verbatim>\<open>pathlib\<close> path is its tuple of parts (\<^verbatim>\<open>Path.parts\<close>): the root, then
  one name for each level. Joining a path with a plain file name adds one part.
\<close>

type_synonym path = "string list"

text \<open>
  Modelled from the spec: the enumeration \<^verbatim>\<open>replication.UpdateState\<close> is declared in
  \<^verbatim>\<open>tools/replication.py\<close>, which is not among the sources. The specification names
  its members: nothing new was available, or one or more diffs were applied. The loop only
  ever compares an outcome with \<^verbatim>\<open>NO_CHANGES\<close> and reads its \<^verbatim>\<open>.value\<close>
  (a parameter of the environment below).
\<close>

datatype UpdateState = NO_CHANGES | CHANGED

text \<open>
  The configuration object, reduced to the settings the module reads. \<^verbatim>\<open>get_int\<close>
  is a method of a class outside the sources; its results are the integer fields.
\<close>

record configuration =
  REPLICATION_URL :: string
  REPLICATION_UPDATE_INTERVAL :: int
  REPLICATION_MAX_DIFF :: int
  REPLICATION_RECHECK_INTERVAL :: int
  FLATNODE_FILE :: string
  get_libpq_dsn :: string
  get_import_style_file :: string

text \<open>The parsed command line. An option that was not given is \<^verbatim>\<open>None\<close>.\<close>

record args =
  config :: configuration
  project_dir :: path
  osm2pgsql_path :: string
  osm2pgsql_cache :: "int option"
  threads :: "int option"
  once :: bool
  do_index :: bool

text \<open>
  The dictionary built by \<^verbatim>\<open>_osm2pgsql_options_from_args\<close>, and the dictionary
  \<^verbatim>\<open>params\<close> that \<^verbatim>\<open>_update\<close> makes of it by adding five keys.
\<close>

record osm2pgsql_options =
  osm2pgsql :: string
  osm2pgsql_cache :: int
  osm2pgsql_style :: string
  threads :: int
  dsn :: string
  flatnode_file :: string

record params = osm2pgsql_options +
  base_url :: string
  update_interval :: int
  import_file :: path
  max_diff_size :: int
  indexed_only :: bool

datatype error = UsageError string | UnboundLocalError | ValueError | OverflowError

text \<open>
  The calls to collaborators, in the order they are made. \<^verbatim>\<open>Sleep\<close> is a call of
  \<^verbatim>\<open>time.sleep\<close> that has slept and returned.
\<close>

datatype event =
    Connect string connection
  | Close connection
  | Now timestamp
  | ReplicationUpdate connection params UpdateState
  | LogStatus connection timestamp string
  | GetStatus connection timestamp
  | SetIndexed connection bool
  | NewIndexer string int
  | IndexBoundaries int int
  | IndexByRank int int
  | LogFatal string
  | LogUpdateCompleted timedelta "timedelta option" timedelta timedelta
  | LogSleeping int
  | Sleep int

text \<open>What the collaborators answer, and whether the logger lets warnings through.\<close>

record env =
  clock :: "nat \<Rightarrow> timestamp"
  update_outcome :: "nat \<Rightarrow> UpdateState"
  batch_date :: "nat \<Rightarrow> timestamp"
  state_value :: "UpdateState \<Rightarrow> int"
  warning_enabled :: bool

record world =
  trace :: "event list"
  clock_reads :: nat
  update_calls :: nat
  status_reads :: nat
  connections :: nat

subsection \<open>Collaborator calls\<close>

definition emit :: "event \<Rightarrow> world \<Rightarrow> world" where
  "emit e w = w\<lparr>trace := trace w @ [e]\<rparr>"

definition connect :: "string \<Rightarrow> world \<Rightarrow> connection \<times> world" where
  "connect d w =
     (connections w, emit (Connect d (connections w)) (w\<lparr>connections := Suc (connections w)\<rparr>))"

definition conn_close :: "connection \<Rightarrow> world \<Rightarrow> world" where
  "conn_close c w = emit (Close c) w"

definition now :: "env \<Rightarrow> world \<Rightarrow> timestamp \<times> world" where
  "now e w =
     (clock e (clock_reads w), emit (Now (clock e (clock_reads w))) (w\<lparr>clock_reads := Suc (clock_reads w)\<rparr>))"

definition replication_update :: "env \<Rightarrow> connection \<Rightarrow> params \<Rightarrow> world \<Rightarrow> UpdateState \<times> world" where
  "replication_update e c p w =
     (update_outcome e (update_calls w),
      emit (ReplicationUpdate c p (update_outcome e (update_calls w)))
        (w\<lparr>update_calls := Suc (update_calls w)\<rparr>))"

definition log_status :: "connection \<Rightarrow> timestamp \<Rightarrow> string \<Rightarrow> world \<Rightarrow> world" where
  "log_status c t label w = emit (LogStatus c t label) w"

definition get_status :: "env \<Rightarrow> connection \<Rightarrow> world \<Rightarrow> timestamp \<times> world" where
  "get_status e c w =
     (batch_date e (status_reads w),
      emit (GetStatus c (batch_date e (status_reads w))) (w\<lparr>status_reads := Suc (status_reads w)\<rparr>))"

definition set_indexed :: "connection \<Rightarrow> bool \<Rightarrow> world \<Rightarrow> world" where
  "set_indexed c b w = emit (SetIndexed c b) w"

text \<open>
  \<^verbatim>\<open>time.sleep\<close> of the standard library, on an integer number of seconds. It turns
  the seconds into nanoseconds in a signed 64-bit integer, and raises
  \<^verbatim>\<open>OverflowError\<close> when they do not fit, below -9223372036 and above 9223372036
  seconds; it raises \<^verbatim>\<open>ValueError\<close> for a negative duration; otherwise it sleeps.
\<close>

definition time_sleep :: "int \<Rightarrow> world \<Rightarrow> (error + unit) \<times> world" where
  "time_sleep secs w =
     (if secs < - 9223372036 \<or> 9223372036 < secs then (Inl OverflowError, w)
      else if secs < 0 then (Inl ValueError, w)
      else (Inr (), emit (Sleep secs) w))"

subsection \<open>The module's functions\<close>

text \<open>Python's \<^verbatim>\<open>x or d\<close> on an optional integer: \<^verbatim>\<open>None\<close> and 0 are false.\<close>

definition py_or :: "int option \<Rightarrow> int \<Rightarrow> int" where
  "py_or x d = (case x of None \<Rightarrow> d | Some i \<Rightarrow> if i = 0 then d else i)"

text \<open>Python's \<^verbatim>\<open>needle in haystack\<close> on strings: a contiguous occurrence.\<close>

fun str_contains :: "string \<Rightarrow> string \<Rightarrow> bool" where
  "str_contains needle [] = (needle = [])"
| "str_contains needle (c # cs) = (take (length needle) (c # cs) = needle \<or> str_contains needle cs)"

definition osm2pgsql_options_from_args :: "args \<Rightarrow> int \<Rightarrow> int \<Rightarrow> osm2pgsql_options" where
  "osm2pgsql_options_from_args a default_cache default_threads =
     \<lparr>osm2pgsql = osm2pgsql_path a,
      osm2pgsql_cache = py_or (args.osm2pgsql_cache a) default_cache,
      osm2pgsql_style = get_import_style_file (config a),
      threads = py_or (args.threads a) default_threads,
      dsn = get_libpq_dsn (config a),
      flatnode_file = FLATNODE_FILE (config a)\<rparr>"

text \<open>Lines 102 to 107 of \<^verbatim>\<open>_update\<close>: the options, extended.\<close>

definition update_params :: "args \<Rightarrow> params" where
  "update_params a =
     osm2pgsql_options.extend (osm2pgsql_options_from_args a 2000 1)
       (params.fields
          (REPLICATION_URL (config a))
          (REPLICATION_UPDATE_INTERVAL (config a))
          (project_dir a @ [''osmosischange.osc''])
          (REPLICATION_MAX_DIFF (config a))
          (\<not> once a))"

text \<open>
  \<^verbatim>\<open>total_seconds\<close> divides the microseconds by \<^verbatim>\<open>10**6\<close> with Python's true
  division of integers, whose result is the binary64 number nearest to the quotient, ties
  to even. For a positive quotient below \<open>2 ^ 52\<close> (a \<^verbatim>\<open>timedelta\<close> is less than
  \<open>10 ^ 9\<close> days, under \<open>2 ^ 47\<close> seconds) that number is \<open>m / 2 ^ s\<close>, where \<open>s\<close> is
  the least scale at which \<open>2 ^ 52 \<le> num * 2 ^ s / den\<close> and \<open>m\<close> is the quotient at that
  scale rounded to the nearest integer, ties to even. A negative quotient is rounded as
  its absolute value is.
\<close>

function binary64_scale :: "int \<Rightarrow> int \<Rightarrow> nat \<Rightarrow> nat" where
  "binary64_scale num den s =
     (if num \<le> 0 \<or> den \<le> 0 \<or> 2 ^ 52 * den \<le> num * 2 ^ s then s
      else binary64_scale num den (Suc s))"
  by pat_completeness auto
termination
proof (relation "measure (\<lambda>(num, den, s). nat (2 ^ 52 * den - num * 2 ^ s))")
  show "wf (measure (\<lambda>(num, den, s). nat (2 ^ 52 * den - num * 2 ^ s)))" by simp
next
  fix num den :: int and s :: nat
  assume "\<not> (num \<le> 0 \<or> den \<le> 0 \<or> 2 ^ 52 * den \<le> num * 2 ^ s)"
  then have pos: "0 < num" and below: "num * 2 ^ s < 2 ^ 52 * den" by auto
  have "0 < num * 2 ^ s" using pos by simp
  then have "num * 2 ^ s < num * 2 ^ Suc s" by simp
  with below
  show "((num, den, Suc s), (num, den, s)) \<in> measure (\<lambda>(num, den, s). nat (2 ^ 52 * den - num * 2 ^ s))"
    by simp
qed

declare binary64_scale.simps [simp del]

definition round_half_even :: "int \<Rightarrow> int \<Rightarrow> int" where
  "round_half_even num den =
     (let q = num div den; r = num mod den
      in if 2 * r < den then q else if den < 2 * r then q + 1 else if even q then q else q + 1)"

text \<open>
  \<^verbatim>\<open>int(delta.total_seconds())\<close>: the float of \<^verbatim>\<open>total_seconds\<close>, with its
  fraction dropped towards zero.
\<close>

definition total_seconds_int :: "timedelta \<Rightarrow> int" where
  "total_seconds_int delta =
     (let a = \<bar>delta\<bar>;
          s = binary64_scale a 1000000 0;
          m = round_half_even (a * 2 ^ s) 1000000
      in sgn delta * (m div 2 ^ s))"

text \<open>\<^verbatim>\<open>timedelta(seconds=n)\<close>, and \<^verbatim>\<open>round_time\<close> of lines 86 and 87.\<close>

definition seconds :: "int \<Rightarrow> timedelta" where
  "seconds n = n * 1000000"

definition round_time :: "timedelta \<Rightarrow> timedelta" where
  "round_time delta = seconds (total_seconds_int delta)"

definition UpdateReplication_report_update ::
    "env \<Rightarrow> timestamp \<Rightarrow> timestamp \<Rightarrow> timestamp option \<Rightarrow> world \<Rightarrow> world" where
  "UpdateReplication_report_update e batchdate start_import start_index w =
     (let (end', w1) = now e w
      in emit (LogUpdateCompleted
                 (round_time ((case start_index of Some i \<Rightarrow> i | None \<Rightarrow> end') - start_import))
                 (case start_index of Some i \<Rightarrow> Some (round_time (end' - i)) | None \<Rightarrow> None)
                 (round_time (end' - start_import))
                 (round_time (end' - batchdate))) w1)"

text \<open>
  One pass through the body of \<^verbatim>\<open>while True\<close> (lines 125 to 155). It ends in
  \<^verbatim>\<open>break\<close>, with the outcome that \<^verbatim>\<open>_update\<close> returns the value of, or goes
  round again. \<^verbatim>\<open>recheck_interval\<close> is bound only in continuous mode (line 122).
\<close>

datatype flow = Break UpdateState | Continue

text \<open>
  Lines 134 to 143, the branch of line 133 in which indexing runs: the clock is read, the
  indexer built with \<^verbatim>\<open>args.threads or 1\<close> threads, its two phases called, and the
  status written on a connection of its own.
\<close>

definition index_phase :: "args \<Rightarrow> env \<Rightarrow> world \<Rightarrow> timestamp option \<times> world" where
  "index_phase a e w =
     (let (index_start, w1) = now e w;
          w2 = emit (NewIndexer (get_libpq_dsn (config a)) (py_or (args.threads a) 1)) w1;
          w3 = emit (IndexBoundaries 0 30) w2;
          w4 = emit (IndexByRank 0 30) w3;
          (conn, w5) = connect (get_libpq_dsn (config a)) w4;
          w6 = set_indexed conn True w5;
          w7 = log_status conn index_start ''index'' w6;
          w8 = conn_close conn w7
      in (Some index_start, w8))"

definition loop_body ::
    "args \<Rightarrow> env \<Rightarrow> params \<Rightarrow> int option \<Rightarrow> world \<Rightarrow> (error + flow) \<times> world" where
  "loop_body a e p recheck_interval w =
     (let (conn, w1) = connect (get_libpq_dsn (config a)) w;
          (start, w2) = now e w1;
          (state, w3) = replication_update e conn p w2;
          w4 = (if state \<noteq> NO_CHANGES then log_status conn start ''import'' w3 else w3);
          (batchdate, w5) = get_status e conn w4;
          w6 = conn_close conn w5;
          (index_start, w7) =
            (if state \<noteq> NO_CHANGES \<and> do_index a then index_phase a e w6 else (None, w6));
          w8 = (if warning_enabled e
                then UpdateReplication_report_update e batchdate start index_start w7 else w7)
      in if once a then (Inr (Break state), w8)
         else if state = NO_CHANGES then
           (case recheck_interval of
              None \<Rightarrow> (Inl UnboundLocalError, w8)
            | Some r \<Rightarrow>
                (case time_sleep r (emit (LogSleeping r) w8) of
                   (Inl err, w9) \<Rightarrow> (Inl err, w9)
                 | (Inr u, w9) \<Rightarrow> (Inr Continue, w9)))
         else (Inr Continue, w8))"

text \<open>
  The loop, with fuel: the number of passes it is followed for. \<^verbatim>\<open>None\<close> is a loop
  that is still running when the fuel is spent.
\<close>

fun update_loop ::
    "args \<Rightarrow> env \<Rightarrow> params \<Rightarrow> int option \<Rightarrow> nat \<Rightarrow> world \<Rightarrow> (error + int) option \<times> world" where
  "update_loop a e p r 0 w = (None, w)"
| "update_loop a e p r (Suc n) w =
     (case loop_body a e p r w of
        (Inl err, w') \<Rightarrow> (Some (Inl err), w')
      | (Inr (Break state), w') \<Rightarrow> (Some (Inr (state_value e state)), w')
      | (Inr Continue, w') \<Rightarrow> update_loop a e p r n w')"

text \<open>The text of the fatal log entry of lines 112 to 115, with its line break.\<close>

definition interval_too_low_message :: string where
  "interval_too_low_message =
     ''Update interval too low for download.geofabrik.de.'' @ [CHR 0x0A] @
     ''Please check install documentation '' @
     ''(https://nominatim.org/release-docs/latest/admin/Import-and-Update#'' @
     ''setting-up-the-update-process).''"

text \<open>
  \<^verbatim>\<open>_update\<close>: the parameters, the two checks of the configuration, the loop. A
  \<^verbatim>\<open>UsageError\<close> is raised after its fatal log entry.
\<close>

definition UpdateReplication_update ::
    "args \<Rightarrow> env \<Rightarrow> nat \<Rightarrow> world \<Rightarrow> (error + int) option \<times> world" where
  "UpdateReplication_update a e fuel w =
     (let p = update_params a in
      if str_contains ''download.geofabrik.de'' (base_url p) \<and> update_interval p < 86400
      then (Some (Inl (UsageError ''Invalid replication update interval setting.'')),
            emit (LogFatal interval_too_low_message) w)
      else if \<not> once a then
        (if \<not> do_index a
         then (Some (Inl (UsageError ''Bad argument '--no-index'.'')),
               emit (LogFatal ''Indexing cannot be disabled when running updates continuously.'') w)
         else update_loop a e p (Some (REPLICATION_RECHECK_INTERVAL (config a))) fuel w)
      else update_loop a e p None fuel w)"

subsection \<open>Observing a trace\<close>

text \<open>The events that a step adds to the trace: those of \<open>w'\<close> after those of \<open>w\<close>.\<close>

definition new_events :: "world \<Rightarrow> world \<Rightarrow> event list" where
  "new_events w w' = drop (length (trace w)) (trace w')"

definition iteration_events ::
    "args \<Rightarrow> env \<Rightarrow> params \<Rightarrow> int option \<Rightarrow> world \<Rightarrow> event list" where
  "iteration_events a e p r w = new_events w (snd (loop_body a e p r w))"


fun is_indexing :: "event \<Rightarrow> bool" where
  "is_indexing (NewIndexer d t) = True"
| "is_indexing (IndexBoundaries lo hi) = True"
| "is_indexing (IndexByRank lo hi) = True"
| "is_indexing _ = False"

fun is_sleep :: "event \<Rightarrow> bool" where
  "is_sleep (Sleep s) = True"
| "is_sleep _ = False"

fun is_apply :: "event \<Rightarrow> bool" where
  "is_apply (ReplicationUpdate c p s) = True"
| "is_apply _ = False"

fun is_apply_or_get_status :: "event \<Rightarrow> bool" where
  "is_apply_or_get_status (ReplicationUpdate c p s) = True"
| "is_apply_or_get_status (GetStatus c t) = True"
| "is_apply_or_get_status _ = False"

fun is_open_or_close :: "event \<Rightarrow> bool" where
  "is_open_or_close (Connect d c) = True"
| "is_open_or_close (Close c) = True"
| "is_open_or_close _ = False"

text \<open>An indexing call with a rank range other than 0 to 30.\<close>

fun other_rank_range :: "event \<Rightarrow> bool" where
  "other_rank_range (IndexBoundaries lo hi) = (lo \<noteq> 0 \<or> hi \<noteq> 30)"
| "other_rank_range (IndexByRank lo hi) = (lo \<noteq> 0 \<or> hi \<noteq> 30)"
| "other_rank_range _ = False"

text \<open>A call of \<^verbatim>\<open>replication.update\<close> whose \<^verbatim>\<open>indexed_only\<close> is not \<open>b\<close>.\<close>

fun indexed_only_differs :: "bool \<Rightarrow> event \<Rightarrow> bool" where
  "indexed_only_differs b (ReplicationUpdate c p s) = (indexed_only p \<noteq> b)"
| "indexed_only_differs b _ = False"

text \<open>
  Following the connections through a trace. \<open>seen\<close> are the connections opened so far,
  \<open>opn\<close> those of them not yet closed. The result is \<^verbatim>\<open>None\<close> when the trace opens
  a connection twice, uses or closes one that is not open, or builds the indexer, runs an
  indexing phase or sleeps while one is open; otherwise it is the two lists at the end.
\<close>

fun conn_track ::
    "connection list \<Rightarrow> connection list \<Rightarrow> event list \<Rightarrow> (connection list \<times> connection list) option" where
  "conn_track seen opn [] = Some (seen, opn)"
| "conn_track seen opn (Connect d c # es) =
     (if c \<in> set seen then None else conn_track (c # seen) (c # opn) es)"
| "conn_track seen opn (Close c # es) =
     (if c \<in> set opn then conn_track seen (removeAll c opn) es else None)"
| "conn_track seen opn (ReplicationUpdate c p s # es) =
     (if c \<in> set opn then conn_track seen opn es else None)"
| "conn_track seen opn (LogStatus c t label # es) =
     (if c \<in> set opn then conn_track seen opn es else None)"
| "conn_track seen opn (GetStatus c t # es) =
     (if c \<in> set opn then conn_track seen opn es else None)"
| "conn_track seen opn (SetIndexed c b # es) =
     (if c \<in> set opn then conn_track seen opn es else None)"
| "conn_track seen opn (NewIndexer d t # es) =
     (if opn = [] then conn_track seen opn es else None)"
| "conn_track seen opn (IndexBoundaries lo hi # es) =
     (if opn = [] then conn_track seen opn es else None)"
| "conn_track seen opn (IndexByRank lo hi # es) =
     (if opn = [] then conn_track seen opn es else None)"
| "conn_track seen opn (Sleep s # es) =
     (if opn = [] then conn_track seen opn es else None)"
| "conn_track seen opn (Now t # es) = conn_track seen opn es"
| "conn_track seen opn (LogFatal m # es) = conn_track seen opn es"
| "conn_track seen opn (LogUpdateCompleted i x t b # es) = conn_track seen opn es"
| "conn_track seen opn (LogSleeping s # es) = conn_track seen opn es"

text \<open>
  A world is tracked when its trace has respected the discipline so far, has no connection
  open, and has only opened connections below its counter.
\<close>

definition tracked :: "world \<Rightarrow> connection list \<Rightarrow> bool" where
  "tracked w seen = (conn_track [] [] (trace w) = Some (seen, []) \<and> (\<forall>c\<in>set seen. c < connections w))"

text \<open>
  The host that a URL names, as the specification speaks of it: what stands between
  \<^verbatim>\<open>://\<close> and the next slash or colon, in lower case, the names of hosts being
  insensitive to case. It is no part of the module: the test of line 110 is compared
  with it.
\<close>

fun after_scheme :: "string \<Rightarrow> string" where
  "after_scheme [] = []"
| "after_scheme (c # cs) = (if take 3 (c # cs) = ''://'' then drop 2 cs else after_scheme cs)"

definition lower_char :: "char \<Rightarrow> char" where
  "lower_char c =
     (case map_of (zip ''ABCDEFGHIJKLMNOPQRSTUVWXYZ'' ''abcdefghijklmnopqrstuvwxyz'') c of
        None \<Rightarrow> c
      | Some l \<Rightarrow> l)"

definition url_host :: "string \<Rightarrow> string" where
  "url_host url =
     map lower_char (takeWhile (\<lambda>c. c \<noteq> CHR ''/'' \<and> c \<noteq> CHR '':'') (after_scheme url))"

subsection \<open>Example runs\<close>

definition demo_config :: "string \<Rightarrow> int \<Rightarrow> configuration" where
  "demo_config url interval =
     \<lparr>REPLICATION_URL = url,
      REPLICATION_UPDATE_INTERVAL = interval,
      REPLICATION_MAX_DIFF = 50,
      REPLICATION_RECHECK_INTERVAL = 900,
      FLATNODE_FILE = [],
      get_libpq_dsn = ''dbname=nominatim'',
      get_import_style_file = ''import-extratags.style''\<rparr>"

definition demo_args :: "configuration \<Rightarrow> bool \<Rightarrow> bool \<Rightarrow> args" where
  "demo_args c single indexing =
     \<lparr>config = c,
      project_dir = [''/'', ''srv'', ''nominatim''],
      osm2pgsql_path = ''/usr/bin/osm2pgsql'',
      osm2pgsql_cache = None,
      threads = None,
      once = single,
      do_index = indexing\<rparr>"

text \<open>
  A clock that advances by seven seconds and a half between two readings, a batch date
  a hundred seconds before the first reading, and the same outcome at every call.
\<close>

definition demo_env :: "UpdateState \<Rightarrow> env" where
  "demo_env s =
     \<lparr>clock = (\<lambda>n. 7500000 * int n),
      update_outcome = (\<lambda>n. s),
      batch_date = (\<lambda>n. - 100000000),
      state_value = (\<lambda>s. case s of NO_CHANGES \<Rightarrow> 3 | CHANGED \<Rightarrow> 0),
      warning_enabled = True\<rparr>"

definition continuous_args :: args where
  "continuous_args =
     demo_args (demo_config ''https://download.geofabrik.de/europe-updates'' 86400) False True"

definition single_run_args :: "bool \<Rightarrow> args" where
  "single_run_args indexing =
     demo_args (demo_config ''https://download.geofabrik.de/europe-updates'' 86400) True indexing"


definition initial_world :: world where
  "initial_world = \<lparr>trace = [], clock_reads = 0, update_calls = 0, status_reads = 0, connections = 0\<rparr>"

subsection \<open>Parameters\<close>

lemma update_params_fields:
  "base_url (update_params a) = REPLICATION_URL (config a)"
  "update_interval (update_params a) = REPLICATION_UPDATE_INTERVAL (config a)"
  "max_diff_size (update_params a) = REPLICATION_MAX_DIFF (config a)"
  "dsn (update_params a) = get_libpq_dsn (config a)"
  by (simp_all add: update_params_def osm2pgsql_options_from_args_def
      osm2pgsql_options.defs params.defs)

text \<open>\<^verbatim>\<open>in\<close> holds exactly when the needle occurs somewhere in the text.\<close>

lemma str_contains_iff: "str_contains n h = (\<exists>ps ss. h = ps @ n @ ss)"
proof (induction h)
  case Nil
  then show ?case by auto
next
  case (Cons c cs)
  show ?case
  proof
    assume "str_contains n (c # cs)"
    then consider "take (length n) (c # cs) = n" | "str_contains n cs" by auto
    then show "\<exists>ps ss. c # cs = ps @ n @ ss"
    proof cases
      case 1
      then have "c # cs = [] @ n @ drop (length n) (c # cs)"
        by (metis append_Nil append_take_drop_id)
      then show ?thesis by blast
    next
      case 2
      with Cons obtain ps ss where "cs = ps @ n @ ss" by blast
      then have "c # cs = (c # ps) @ n @ ss" by simp
      then show ?thesis by blast
    qed
  next
    assume "\<exists>ps ss. c # cs = ps @ n @ ss"
    then obtain ps ss where occurs: "c # cs = ps @ n @ ss" by blast
    show "str_contains n (c # cs)"
    proof (cases ps)
      case Nil
      with occurs have "take (length n) (c # cs) = n" by simp
      then show ?thesis by simp
    next
      case (Cons x xs)
      with occurs have "cs = xs @ n @ ss" by simp
      with Cons.IH show ?thesis by auto
    qed
  qed
qed

subsection \<open>One pass of the loop\<close>

lemmas collaborator_defs = emit_def connect_def conn_close_def now_def replication_update_def
  log_status_def get_status_def set_indexed_def time_sleep_def

lemma loop_body_no_changes:
  assumes "update_outcome e (update_calls w) = NO_CHANGES"
  shows "loop_body a e p r w =
    (if once a then Inr (Break NO_CHANGES)
     else case r of
            None \<Rightarrow> Inl UnboundLocalError
          | Some i \<Rightarrow>
              if i < - 9223372036 \<or> 9223372036 < i then Inl OverflowError
              else if i < 0 then Inl ValueError else Inr Continue,
     w\<lparr>trace := trace w @
          [Connect (get_libpq_dsn (config a)) (connections w),
           Now (clock e (clock_reads w)),
           ReplicationUpdate (connections w) p NO_CHANGES,
           GetStatus (connections w) (batch_date e (status_reads w)),
           Close (connections w)]
          @ (if warning_enabled e then
              [Now (clock e (Suc (clock_reads w))),
               LogUpdateCompleted
                 (round_time (clock e (Suc (clock_reads w)) - clock e (clock_reads w)))
                 None
                 (round_time (clock e (Suc (clock_reads w)) - clock e (clock_reads w)))
                 (round_time (clock e (Suc (clock_reads w)) - batch_date e (status_reads w)))]
             else [])
          @ (if once a then []
             else case r of
                    None \<Rightarrow> []
                  | Some i \<Rightarrow> LogSleeping i # (if 0 \<le> i \<and> i \<le> 9223372036 then [Sleep i] else [])),
       clock_reads := (if warning_enabled e then Suc (Suc (clock_reads w)) else Suc (clock_reads w)),
       update_calls := Suc (update_calls w),
       status_reads := Suc (status_reads w),
       connections := Suc (connections w)\<rparr>)"
  using assms
  by (simp add: loop_body_def index_phase_def UpdateReplication_report_update_def
      collaborator_defs Let_def split: option.splits)

lemma loop_body_changed_no_index:
  assumes "update_outcome e (update_calls w) = CHANGED" and "\<not> do_index a"
  shows "loop_body a e p r w =
    (if once a then Inr (Break CHANGED) else Inr Continue,
     w\<lparr>trace := trace w @
          [Connect (get_libpq_dsn (config a)) (connections w),
           Now (clock e (clock_reads w)),
           ReplicationUpdate (connections w) p CHANGED,
           LogStatus (connections w) (clock e (clock_reads w)) ''import'',
           GetStatus (connections w) (batch_date e (status_reads w)),
           Close (connections w)]
          @ (if warning_enabled e then
              [Now (clock e (Suc (clock_reads w))),
               LogUpdateCompleted
                 (round_time (clock e (Suc (clock_reads w)) - clock e (clock_reads w)))
                 None
                 (round_time (clock e (Suc (clock_reads w)) - clock e (clock_reads w)))
                 (round_time (clock e (Suc (clock_reads w)) - batch_date e (status_reads w)))]
             else []),
       clock_reads := (if warning_enabled e then Suc (Suc (clock_reads w)) else Suc (clock_reads w)),
       update_calls := Suc (update_calls w),
       status_reads := Suc (status_reads w),
       connections := Suc (connections w)\<rparr>)"
  using assms
  by (simp add: loop_body_def index_phase_def UpdateReplication_report_update_def
      collaborator_defs Let_def split: option.splits)

lemma loop_body_changed_index:
  assumes "update_outcome e (update_calls w) = CHANGED" and "do_index a"
  shows "loop_body a e p r w =
    (if once a then Inr (Break CHANGED) else Inr Continue,
     w\<lparr>trace := trace w @
          [Connect (get_libpq_dsn (config a)) (connections w),
           Now (clock e (clock_reads w)),
           ReplicationUpdate (connections w) p CHANGED,
           LogStatus (connections w) (clock e (clock_reads w)) ''import'',
           GetStatus (connections w) (batch_date e (status_reads w)),
           Close (connections w),
           Now (clock e (Suc (clock_reads w))),
           NewIndexer (get_libpq_dsn (config a)) (py_or (args.threads a) 1),
           IndexBoundaries 0 30,
           IndexByRank 0 30,
           Connect (get_libpq_dsn (config a)) (Suc (connections w)),
           SetIndexed (Suc (connections w)) True,
           LogStatus (Suc (connections w)) (clock e (Suc (clock_reads w))) ''index'',
           Close (Suc (connections w))]
          @ (if warning_enabled e then
              [Now (clock e (Suc (Suc (clock_reads w)))),
               LogUpdateCompleted
                 (round_time (clock e (Suc (clock_reads w)) - clock e (clock_reads w)))
                 (Some (round_time (clock e (Suc (Suc (clock_reads w))) - clock e (Suc (clock_reads w)))))
                 (round_time (clock e (Suc (Suc (clock_reads w))) - clock e (clock_reads w)))
                 (round_time (clock e (Suc (Suc (clock_reads w))) - batch_date e (status_reads w)))]
             else []),
       clock_reads := (if warning_enabled e then Suc (Suc (Suc (clock_reads w))) else Suc (Suc (clock_reads w))),
       update_calls := Suc (update_calls w),
       status_reads := Suc (status_reads w),
       connections := Suc (Suc (connections w))\<rparr>)"
  using assms
  by (simp add: loop_body_def index_phase_def UpdateReplication_report_update_def
      collaborator_defs Let_def split: option.splits)

lemma loop_body_cases:
  obtains (idle) "update_outcome e (update_calls w) = NO_CHANGES"
  | (import_only) "update_outcome e (update_calls w) = CHANGED" "\<not> do_index a"
  | (import_index) "update_outcome e (update_calls w) = CHANGED" "do_index a"
  by (cases "update_outcome e (update_calls w)") auto

text \<open>Every pass only adds to the trace.\<close>

lemma loop_body_extends:
  "trace (snd (loop_body a e p r w)) = trace w @ iteration_events a e p r w"
  by (cases rule: loop_body_cases [where e=e and w=w and a=a])
    (simp_all add: iteration_events_def new_events_def loop_body_no_changes
      loop_body_changed_no_index loop_body_changed_index)

lemma update_loop_Suc:
  "update_loop a e p r (Suc n) w =
     (case fst (loop_body a e p r w) of
        Inl err \<Rightarrow> (Some (Inl err), snd (loop_body a e p r w))
      | Inr (Break s) \<Rightarrow> (Some (Inr (state_value e s)), snd (loop_body a e p r w))
      | Inr Continue \<Rightarrow> update_loop a e p r n (snd (loop_body a e p r w)))"
  by (simp split: prod.splits sum.splits flow.splits)

text \<open>What no pass adds, the loop does not add.\<close>

lemma update_loop_filter:
  assumes "\<And>w. filter Q (iteration_events a e p r w) = []"
  shows "filter Q (trace (snd (update_loop a e p r n w))) = filter Q (trace w)"
proof (induction n arbitrary: w)
  case 0
  show ?case by simp
next
  case (Suc n)
  have step: "filter Q (trace (snd (loop_body a e p r w))) = filter Q (trace w)"
    by (simp add: loop_body_extends assms)
  show ?case
  proof (cases "fst (loop_body a e p r w)")
    case (Inl err)
    then show ?thesis by (simp add: update_loop_Suc step del: update_loop.simps)
  next
    case (Inr f)
    then show ?thesis
      by (cases f) (simp_all add: update_loop_Suc step Suc.IH del: update_loop.simps)
  qed
qed

lemma iteration_events_no_changes:
  assumes "update_outcome e (update_calls w) = NO_CHANGES"
  shows "iteration_events a e p r w =
          [Connect (get_libpq_dsn (config a)) (connections w),
           Now (clock e (clock_reads w)),
           ReplicationUpdate (connections w) p NO_CHANGES,
           GetStatus (connections w) (batch_date e (status_reads w)),
           Close (connections w)]
          @ (if warning_enabled e then
              [Now (clock e (Suc (clock_reads w))),
               LogUpdateCompleted
                 (round_time (clock e (Suc (clock_reads w)) - clock e (clock_reads w)))
                 None
                 (round_time (clock e (Suc (clock_reads w)) - clock e (clock_reads w)))
                 (round_time (clock e (Suc (clock_reads w)) - batch_date e (status_reads w)))]
             else [])
          @ (if once a then []
             else case r of
                    None \<Rightarrow> []
                  | Some i \<Rightarrow> LogSleeping i # (if 0 \<le> i \<and> i \<le> 9223372036 then [Sleep i] else []))"
  by (simp add: iteration_events_def new_events_def loop_body_no_changes [OF assms])

lemma iteration_events_changed_no_index:
  assumes "update_outcome e (update_calls w) = CHANGED" and "\<not> do_index a"
  shows "iteration_events a e p r w =
          [Connect (get_libpq_dsn (config a)) (connections w),
           Now (clock e (clock_reads w)),
           ReplicationUpdate (connections w) p CHANGED,
           LogStatus (connections w) (clock e (clock_reads w)) ''import'',
           GetStatus (connections w) (batch_date e (status_reads w)),
           Close (connections w)]
          @ (if warning_enabled e then
              [Now (clock e (Suc (clock_reads w))),
               LogUpdateCompleted
                 (round_time (clock e (Suc (clock_reads w)) - clock e (clock_reads w)))
                 None
                 (round_time (clock e (Suc (clock_reads w)) - clock e (clock_reads w)))
                 (round_time (clock e (Suc (clock_reads w)) - batch_date e (status_reads w)))]
             else [])"
  by (simp add: iteration_events_def new_events_def loop_body_changed_no_index [OF assms])

lemma iteration_events_changed_index:
  assumes "update_outcome e (update_calls w) = CHANGED" and "do_index a"
  shows "iteration_events a e p r w =
          [Connect (get_libpq_dsn (config a)) (connections w),
           Now (clock e (clock_reads w)),
           ReplicationUpdate (connections w) p CHANGED,
           LogStatus (connections w) (clock e (clock_reads w)) ''import'',
           GetStatus (connections w) (batch_date e (status_reads w)),
           Close (connections w),
           Now (clock e (Suc (clock_reads w))),
           NewIndexer (get_libpq_dsn (config a)) (py_or (args.threads a) 1),
           IndexBoundaries 0 30,
           IndexByRank 0 30,
           Connect (get_libpq_dsn (config a)) (Suc (connections w)),
           SetIndexed (Suc (connections w)) True,
           LogStatus (Suc (connections w)) (clock e (Suc (clock_reads w))) ''index'',
           Close (Suc (connections w))]
          @ (if warning_enabled e then
              [Now (clock e (Suc (Suc (clock_reads w)))),
               LogUpdateCompleted
                 (round_time (clock e (Suc (clock_reads w)) - clock e (clock_reads w)))
                 (Some (round_time (clock e (Suc (Suc (clock_reads w))) - clock e (Suc (clock_reads w)))))
                 (round_time (clock e (Suc (Suc (clock_reads w))) - clock e (clock_reads w)))
                 (round_time (clock e (Suc (Suc (clock_reads w))) - batch_date e (status_reads w)))]
             else [])"
  by (simp add: iteration_events_def new_events_def loop_body_changed_index [OF assms])

lemmas iteration_events_eq =
  iteration_events_no_changes iteration_events_changed_no_index iteration_events_changed_index

text \<open>The trace of a run of the command: a fatal log entry, or what the loop adds.\<close>

lemma update_filter:
  assumes "\<And>w. filter Q (iteration_events a e (update_params a) None w) = []"
    and "\<And>w. filter Q (iteration_events a e (update_params a)
                 (Some (REPLICATION_RECHECK_INTERVAL (config a))) w) = []"
    and "\<And>m. \<not> Q (LogFatal m)"
  shows "filter Q (trace (snd (UpdateReplication_update a e n w))) = filter Q (trace w)"
  using assms
  by (simp add: UpdateReplication_update_def Let_def update_loop_filter emit_def)


text \<open>
  Past its two checks, the command is the loop, with \<^verbatim>\<open>recheck_interval\<close> bound to
  the configured interval in continuous mode and unbound in single-run mode.
\<close>

lemma update_runs_loop:
  assumes "\<not> (str_contains ''download.geofabrik.de'' (REPLICATION_URL (config a)) \<and>
            REPLICATION_UPDATE_INTERVAL (config a) < 86400)"
    and "once a \<or> do_index a"
  shows "UpdateReplication_update a e n w =
           update_loop a e (update_params a)
             (if once a then None else Some (REPLICATION_RECHECK_INTERVAL (config a))) n w"
  using assms by (auto simp add: UpdateReplication_update_def Let_def update_params_fields)


text \<open>
  The loop itself raises no usage error, and finds its interval unbound only when it was
  given none in continuous mode, which the command never does.
\<close>

lemma loop_body_error:
  assumes "fst (loop_body a e p r w) = Inl err"
  shows "\<not> once a \<and>
    (case r of
       None \<Rightarrow> err = UnboundLocalError
     | Some i \<Rightarrow> err = ValueError \<or> err = OverflowError)"
  using assms
  by (cases rule: loop_body_cases [where e=e and w=w and a=a])
    (simp_all add: loop_body_no_changes loop_body_changed_no_index loop_body_changed_index
      split: if_splits option.splits)

lemma update_loop_error:
  assumes "fst (update_loop a e p r n w) = Some (Inl err)"
  shows "\<not> once a \<and>
    (case r of
       None \<Rightarrow> err = UnboundLocalError
     | Some i \<Rightarrow> err = ValueError \<or> err = OverflowError)"
  using assms
proof (induction n arbitrary: w)
  case 0
  then show ?case by simp
next
  case (Suc n)
  show ?case
  proof (cases "fst (loop_body a e p r w)")
    case (Inl x)
    with Suc.prems have "x = err" by (simp add: update_loop_Suc del: update_loop.simps)
    with Inl show ?thesis by (simp add: loop_body_error)
  next
    case (Inr f)
    show ?thesis
    proof (cases f)
      case (Break s)
      with Inr Suc.prems show ?thesis by (simp add: update_loop_Suc del: update_loop.simps)
    next
      case Continue
      with Inr Suc.prems
      have "fst (update_loop a e p r n (snd (loop_body a e p r w))) = Some (Inl err)"
        by (simp add: update_loop_Suc del: update_loop.simps)
      then show ?thesis by (rule Suc.IH)
    qed
  qed
qed

lemma update_loop_no_usage_error:
  "fst (update_loop a e p r n w) \<noteq> Some (Inl (UsageError m))"
  using update_loop_error [of a e p r n w "UsageError m"] by (auto split: option.splits)

lemma update_never_unbound:
  "fst (UpdateReplication_update a e n w) \<noteq> Some (Inl UnboundLocalError)"
proof -
  have "fst (update_loop a e p (Some i) n w) \<noteq> Some (Inl UnboundLocalError)" for p i
    using update_loop_error [of a e p "Some i" n w UnboundLocalError] by auto
  moreover have "once a \<Longrightarrow> fst (update_loop a e p None n w) \<noteq> Some (Inl UnboundLocalError)" for p
    using update_loop_error [of a e p None n w UnboundLocalError] by auto
  ultimately show ?thesis
    by (simp add: UpdateReplication_update_def Let_def)
qed

subsection \<open>Rounding a duration\<close>

text \<open>The scale is one at which the quotient has reached \<open>2 ^ 52\<close>.\<close>

lemma binary64_scale_reaches:
  assumes "0 < num" and "0 < den"
  shows "2 ^ 52 * den \<le> num * 2 ^ binary64_scale num den s"
  using assms
proof (induction num den s rule: binary64_scale.induct)
  case (1 num den s)
  show ?case
  proof (cases "2 ^ 52 * den \<le> num * 2 ^ s")
    case True
    then show ?thesis by (subst binary64_scale.simps) simp
  next
    case False
    with 1 show ?thesis by (subst binary64_scale.simps) simp
  qed
qed

lemma round_half_even_lower:
  assumes "0 < den"
  shows "num div den \<le> round_half_even num den"
  by (simp add: round_half_even_def Let_def)

lemma round_half_even_upper:
  assumes "0 < den"
  shows "2 * (den * round_half_even num den) \<le> 2 * num + den"
proof -
  define q where "q = num div den"
  define r where "r = num mod den"
  define x where "x = den * q"
  have split: "num = x + r" by (simp add: x_def q_def r_def)
  have r: "0 \<le> r" using assms by (simp add: r_def)
  have next_one: "den * (q + 1) = x + den" by (simp add: x_def algebra_simps)
  have "round_half_even num den = q \<or> (round_half_even num den = q + 1 \<and> den \<le> 2 * r)"
    by (auto simp add: round_half_even_def Let_def q_def r_def)
  then show ?thesis
  proof
    assume "round_half_even num den = q"
    then have "den * round_half_even num den = x" by (simp add: x_def)
    with split r assms show ?thesis by simp
  next
    assume "round_half_even num den = q + 1 \<and> den \<le> 2 * r"
    then have "den * round_half_even num den = x + den" and "den \<le> 2 * r"
      using next_one by simp_all
    with split show ?thesis by simp
  qed
qed

text \<open>Below \<open>2 ^ 34\<close> seconds the float is near enough to the quotient for its integer part to be exact.\<close>

lemma total_seconds_int_exact:
  assumes "0 \<le> d" and "d < 17179869184000000"
  shows "total_seconds_int d = d div 1000000"
proof (cases "d = 0")
  case True
  then show ?thesis
    by (simp add: total_seconds_int_def Let_def round_half_even_def)
next
  case False
  with assms have pos: "0 < d" by simp
  define s where "s = binary64_scale d 1000000 0"
  define P :: int where "P = 2 ^ s"
  define m where "m = round_half_even (d * P) 1000000"
  define n where "n = d div 1000000"
  define f where "f = d mod 1000000"
  have d: "d = n * 1000000 + f" by (simp add: n_def f_def)
  have f: "0 \<le> f" "f \<le> 999999" by (simp_all add: f_def) 
  have n: "0 \<le> n" using assms by (simp add: n_def)
  have Ppos: "0 < P" by (simp add: P_def)
  have "2 ^ 52 * 1000000 \<le> d * P"
    unfolding P_def s_def using binary64_scale_reaches [of d 1000000 0] pos by simp
  moreover have "d * P < 17179869184000000 * P"
    using assms(2) Ppos by simp
  ultimately have "(2 ^ 52 :: int) * 1000000 < 17179869184000000 * P" by linarith
  then have "(262144 :: int) < P" by simp
  then have big: "524288 \<le> P"
  proof -
    have "s \<ge> 19"
    proof (rule ccontr)
      assume "\<not> 19 \<le> s"
      then have "s \<le> 18" by simp
      then have "(2::int) ^ s \<le> 2 ^ 18" by (rule power_increasing) simp
      with \<open>262144 < P\<close> show False by (simp add: P_def)
    qed
    then have "(2::int) ^ 19 \<le> 2 ^ s" by (rule power_increasing) simp
    then show ?thesis by (simp add: P_def)
  qed
  define A where "A = n * P"
  define B where "B = f * P"
  define D where "D = d * P"
  have dP: "D = A * 1000000 + B" by (simp add: A_def B_def D_def d algebra_simps)
  have B: "0 \<le> B" "B \<le> 999999 * P" using f Ppos by (simp_all add: B_def)
  have m: "m = round_half_even D 1000000" by (simp add: m_def D_def)
  have lower: "A \<le> m"
  proof -
    have "A * 1000000 \<le> D" using dP B by simp
    then have "A * 1000000 div 1000000 \<le> D div 1000000" by (rule zdiv_mono1) simp
    then have "A \<le> D div 1000000" by simp
    also have "\<dots> \<le> m" unfolding m by (rule round_half_even_lower) simp
    finally show ?thesis .
  qed
  have next_one: "(n + 1) * P = A + P" by (simp add: A_def algebra_simps)
  have upper: "m < (n + 1) * P"
  proof -
    have "2 * (1000000 * m) \<le> 2 * D + 1000000"
      unfolding m by (rule round_half_even_upper) simp
    with dP B big have "2 * (1000000 * m) < 2 * (1000000 * (A + P))" by simp
    then show ?thesis unfolding next_one by simp
  qed
  have lower': "n * P \<le> m" using lower by (simp add: A_def)
  have "m div P = n"
  proof -
    define r where "r = m - n * P"
    have r: "0 \<le> r" "r < P" using lower' upper by (simp_all add: r_def algebra_simps)
    have "m = r + n * P" by (simp add: r_def)
    then have "m div P = (r + n * P) div P" by simp
    also have "\<dots> = n + r div P" using Ppos by (simp only: div_mult_self1) 
    also have "\<dots> = n" using r by simp
    finally show ?thesis .
  qed
  moreover have "total_seconds_int d = m div P"
    using pos by (simp add: total_seconds_int_def Let_def m_def P_def s_def)
  ultimately show ?thesis by (simp add: n_def)
qed

lemma total_seconds_int_minus: "total_seconds_int (- d) = - total_seconds_int d"
  by (simp add: total_seconds_int_def Let_def)

text \<open>From \<open>2 ^ 34\<close> seconds on, the float can be the whole second above the quotient.\<close>

lemma total_seconds_int_rounds_up: "total_seconds_int 32219683200999999 = 32219683201"
  by code_simp

text \<open>
  So \<^verbatim>\<open>round_time\<close> cuts a duration of less than \<open>2 ^ 34\<close> seconds to whole seconds,
  towards zero: down when it is not negative, up when it is negative.
\<close>

lemma round_time_floor:
  assumes "0 \<le> d" and "d < 17179869184000000"
  shows "round_time d = seconds (d div 1000000)"
  using assms by (simp add: round_time_def total_seconds_int_exact)

lemma round_time_minus: "round_time (- d) = - round_time d"
  by (simp add: round_time_def total_seconds_int_minus seconds_def)

lemma round_time_seconds:
  assumes "0 \<le> n" and "n < 17179869184"
  shows "round_time (seconds n) = seconds n"
proof -
  have "0 \<le> seconds n" "seconds n < 17179869184000000"
    using assms by (simp_all add: seconds_def)
  then have "round_time (seconds n) = seconds (seconds n div 1000000)"
    by (rule round_time_floor)
  then show ?thesis by (simp add: seconds_def)
qed

subsection \<open>Connections through a run\<close>

text \<open>The tracker goes through a trace piece by piece.\<close>

lemma conn_track_append:
  "conn_track seen opn (xs @ ys) =
     (case conn_track seen opn xs of None \<Rightarrow> None | Some (s, opn') \<Rightarrow> conn_track s opn' ys)"
  by (induction seen opn xs rule: conn_track.induct) simp_all

lemma iteration_tracked:
  assumes "\<forall>c\<in>set seen. c < connections w"
  shows "\<exists>seen'. conn_track seen [] (iteration_events a e p r w) = Some (seen', []) \<and>
           (\<forall>c\<in>set seen'. c < connections (snd (loop_body a e p r w)))"
proof (cases rule: loop_body_cases [where e=e and w=w and a=a])
  case idle
  from assms have fresh: "connections w \<notin> set seen" by auto
  show ?thesis
    using assms fresh
    by (auto simp add: iteration_events_no_changes [OF idle] loop_body_no_changes [OF idle]
        conn_track_append split: option.splits)
next
  case import_only
  from assms have fresh: "connections w \<notin> set seen" by auto
  show ?thesis
    using assms fresh
    by (auto simp add: iteration_events_changed_no_index [OF import_only]
        loop_body_changed_no_index [OF import_only] conn_track_append)
next
  case import_index
  from assms have fresh: "connections w \<notin> set seen" "Suc (connections w) \<notin> set seen" by auto
  show ?thesis
    using assms fresh
    by (auto simp add: iteration_events_changed_index [OF import_index]
        loop_body_changed_index [OF import_index] conn_track_append)
qed

lemma loop_body_tracked:
  assumes "tracked w seen"
  shows "\<exists>seen'. tracked (snd (loop_body a e p r w)) seen'"
proof -
  from assms have "\<forall>c\<in>set seen. c < connections w" by (simp add: tracked_def)
  from iteration_tracked [OF this, of a e p r]
  obtain seen' where "conn_track seen [] (iteration_events a e p r w) = Some (seen', [])"
    and "\<forall>c\<in>set seen'. c < connections (snd (loop_body a e p r w))" by blast
  with assms have "tracked (snd (loop_body a e p r w)) seen'"
    by (simp add: tracked_def loop_body_extends conn_track_append)
  then show ?thesis ..
qed

lemma update_loop_tracked:
  assumes "tracked w seen"
  shows "\<exists>seen'. tracked (snd (update_loop a e p r n w)) seen'"
  using assms
proof (induction n arbitrary: w seen)
  case 0
  then show ?case by auto
next
  case (Suc n)
  from loop_body_tracked [OF Suc.prems, of a e p r]
  obtain seen' where step: "tracked (snd (loop_body a e p r w)) seen'" ..
  show ?case
  proof (cases "fst (loop_body a e p r w)")
    case (Inl err)
    with step show ?thesis by (auto simp add: update_loop_Suc simp del: update_loop.simps)
  next
    case (Inr f)
    show ?thesis
    proof (cases f)
      case (Break s)
      with Inr step show ?thesis by (auto simp add: update_loop_Suc simp del: update_loop.simps)
    next
      case Continue
      with Inr Suc.IH [OF step] show ?thesis
        by (simp add: update_loop_Suc del: update_loop.simps)
    qed
  qed
qed

lemma emit_fatal_tracked:
  assumes "tracked w seen"
  shows "tracked (emit (LogFatal m) w) seen"
  using assms by (simp add: tracked_def emit_def conn_track_append)

lemma update_tracked:
  assumes "tracked w seen"
  shows "\<exists>seen'. tracked (snd (UpdateReplication_update a e n w)) seen'"
proof -
  have fatal: "\<exists>seen'. tracked (emit (LogFatal m) w) seen'" for m
    using emit_fatal_tracked [OF assms] by blast
  show ?thesis
    using update_loop_tracked [OF assms] fatal
    by (simp add: UpdateReplication_update_def Let_def)
qed

subsection \<open>What is passed to the collaborators\<close>

text \<open>
  C10. The flag \<^verbatim>\<open>indexed_only\<close>, which restricts an update to the rows that affect
  what is already indexed, is the negation of \<^verbatim>\<open>--once\<close>: true exactly when the loop
  runs continuously, false exactly when it runs once. It is so in the parameters that
  \<^verbatim>\<open>_update\<close> builds, and in every call of \<^verbatim>\<open>replication.update\<close> that a run
  of the command makes, however long the run is followed.
\<close>

theorem indexed_only_is_continuous:
  "indexed_only (update_params a) = (\<not> once a) \<and>
   filter (indexed_only_differs (\<not> once a)) (trace (snd (UpdateReplication_update a e n w)))
     = filter (indexed_only_differs (\<not> once a)) (trace w)"
proof
  show flag: "indexed_only (update_params a) = (\<not> once a)"
    by (simp add: update_params_def osm2pgsql_options.defs params.defs)
  have pass: "filter (indexed_only_differs (\<not> once a)) (iteration_events a e (update_params a) r v) = []"
    for r v
    by (cases rule: loop_body_cases [where e=e and w=v and a=a])
      (simp_all add: iteration_events_eq flag split: option.splits)
  show "filter (indexed_only_differs (\<not> once a)) (trace (snd (UpdateReplication_update a e n w)))
     = filter (indexed_only_differs (\<not> once a)) (trace w)"
    by (rule update_filter) (simp_all add: pass)
qed

theorem indexed_only_is_continuous_witness:
  "indexed_only (update_params continuous_args) = True \<and>
   indexed_only (update_params (single_run_args True)) = False \<and>
   filter (indexed_only_differs True)
     (trace (snd (UpdateReplication_update continuous_args (demo_env CHANGED) 3 initial_world))) = []"
  using indexed_only_is_continuous [of continuous_args "demo_env CHANGED" 3 initial_world]
    indexed_only_is_continuous [of "single_run_args True" "demo_env CHANGED" 3 initial_world]
  by (simp add: continuous_args_def single_run_args_def demo_args_def initial_world_def)

text \<open>
  C9. Whenever indexing runs, both phases are called with the rank range 0 to 30. In a
  pass of the loop, the calls to the indexer are none, or the construction of the indexer
  followed by \<^verbatim>\<open>index_boundaries(0, 30)\<close> and \<^verbatim>\<open>index_by_rank(0, 30)\<close>; and a
  run of the command adds no indexing call with another range to the trace.
\<close>

theorem indexing_rank_range:
  "filter is_indexing (iteration_events a e p r w) =
     (if update_outcome e (update_calls w) \<noteq> NO_CHANGES \<and> do_index a
      then [NewIndexer (get_libpq_dsn (config a)) (py_or (args.threads a) 1),
            IndexBoundaries 0 30, IndexByRank 0 30]
      else []) \<and>
   filter other_rank_range (trace (snd (UpdateReplication_update a e n w)))
     = filter other_rank_range (trace w)"
proof
  show "filter is_indexing (iteration_events a e p r w) =
     (if update_outcome e (update_calls w) \<noteq> NO_CHANGES \<and> do_index a
      then [NewIndexer (get_libpq_dsn (config a)) (py_or (args.threads a) 1),
            IndexBoundaries 0 30, IndexByRank 0 30]
      else [])"
    by (cases rule: loop_body_cases [where e=e and w=w and a=a])
      (simp_all add: iteration_events_eq split: option.splits)
  have pass: "filter other_rank_range (iteration_events a e q r v) = []" for q r v
    by (cases rule: loop_body_cases [where e=e and w=v and a=a])
      (simp_all add: iteration_events_eq split: option.splits)
  show "filter other_rank_range (trace (snd (UpdateReplication_update a e n w)))
     = filter other_rank_range (trace w)"
    by (rule update_filter) (simp_all add: pass)
qed

theorem indexing_rank_range_witness:
  "filter is_indexing
     (iteration_events continuous_args (demo_env CHANGED) (update_params continuous_args)
        (Some 900) initial_world)
     = [NewIndexer ''dbname=nominatim'' 1, IndexBoundaries 0 30, IndexByRank 0 30] \<and>
   filter other_rank_range
     (trace (snd (UpdateReplication_update continuous_args (demo_env CHANGED) 3 initial_world))) = []"
  using indexing_rank_range [of continuous_args "demo_env CHANGED" "update_params continuous_args"
      "Some 900" initial_world 3]
  by (simp add: continuous_args_def demo_args_def demo_config_def demo_env_def initial_world_def
      py_or_def)

subsection \<open>The status store\<close>

text \<open>
  C7. On every pass of the loop, whatever the outcome of the apply call, the batch date is
  read back from the status store after the apply call: the pass makes one call of
  \<^verbatim>\<open>replication.update\<close> and, after it and on the same connection, one call of
  \<^verbatim>\<open>status.get_status\<close>.
\<close>

theorem batch_date_read_back:
  "filter is_apply_or_get_status (iteration_events a e p r w) =
     [ReplicationUpdate (connections w) p (update_outcome e (update_calls w)),
      GetStatus (connections w) (batch_date e (status_reads w))] \<and>
   status_reads (snd (loop_body a e p r w)) = Suc (status_reads w)"
  by (cases rule: loop_body_cases [where e=e and w=w and a=a])
    (simp_all add: iteration_events_eq loop_body_no_changes loop_body_changed_no_index
      loop_body_changed_index split: option.splits)

theorem batch_date_read_back_witness:
  "filter is_apply_or_get_status
     (iteration_events continuous_args (demo_env NO_CHANGES) (update_params continuous_args)
        (Some 900) initial_world)
     = [ReplicationUpdate 0 (update_params continuous_args) NO_CHANGES, GetStatus 0 (- 100000000)] \<and>
   status_reads (snd (loop_body continuous_args (demo_env NO_CHANGES)
     (update_params continuous_args) (Some 900) initial_world)) = 1"
  using batch_date_read_back [of continuous_args "demo_env NO_CHANGES"
      "update_params continuous_args" "Some 900" initial_world]
  by (simp add: demo_env_def initial_world_def)

subsection \<open>The two kinds of pass\<close>






subsection \<open>The checks before the loop\<close>

text \<open>
  C3, amended. The test of line 110 is on the text of the base URL: whether
  \<^verbatim>\<open>download.geofabrik.de\<close> occurs in it, in these very letters, wherever it stands.
  For a URL in which it occurs and an update interval below 86400 seconds, the command
  fails with the usage error ``Invalid replication update interval setting.'' however long
  it is followed: the only thing it has done is to write the fatal log entry, so the loop
  has not started and no collaborator has been called. With an interval of at least 86400
  seconds, or a URL in which the text does not occur, this check lets the command through:
  it goes on to the check of \<^verbatim>\<open>--no-index\<close> and the loop, and this usage error is not
  its result.
\<close>

theorem rate_limit_guard:
  "(str_contains ''download.geofabrik.de'' (REPLICATION_URL (config a)) \<and>
      REPLICATION_UPDATE_INTERVAL (config a) < 86400 \<longrightarrow>
      UpdateReplication_update a e n w =
        (Some (Inl (UsageError ''Invalid replication update interval setting.'')),
         emit (LogFatal interval_too_low_message) w)) \<and>
   (\<not> str_contains ''download.geofabrik.de'' (REPLICATION_URL (config a)) \<or>
      86400 \<le> REPLICATION_UPDATE_INTERVAL (config a) \<longrightarrow>
      fst (UpdateReplication_update a e n w)
         \<noteq> Some (Inl (UsageError ''Invalid replication update interval setting.'')) \<and>
      UpdateReplication_update a e n w =
        (if \<not> once a \<and> \<not> do_index a
         then (Some (Inl (UsageError ''Bad argument '--no-index'.'')),
               emit (LogFatal ''Indexing cannot be disabled when running updates continuously.'') w)
         else update_loop a e (update_params a)
                (if once a then None else Some (REPLICATION_RECHECK_INTERVAL (config a))) n w))"
proof (intro conjI impI)
  assume "str_contains ''download.geofabrik.de'' (REPLICATION_URL (config a)) \<and>
      REPLICATION_UPDATE_INTERVAL (config a) < 86400"
  then show "UpdateReplication_update a e n w =
        (Some (Inl (UsageError ''Invalid replication update interval setting.'')),
         emit (LogFatal interval_too_low_message) w)"
    by (simp add: UpdateReplication_update_def Let_def update_params_fields)
next
  assume ok: "\<not> str_contains ''download.geofabrik.de'' (REPLICATION_URL (config a)) \<or>
      86400 \<le> REPLICATION_UPDATE_INTERVAL (config a)"
  then show run: "UpdateReplication_update a e n w =
        (if \<not> once a \<and> \<not> do_index a
         then (Some (Inl (UsageError ''Bad argument '--no-index'.'')),
               emit (LogFatal ''Indexing cannot be disabled when running updates continuously.'') w)
         else update_loop a e (update_params a)
                (if once a then None else Some (REPLICATION_RECHECK_INTERVAL (config a))) n w)"
    by (auto simp add: UpdateReplication_update_def Let_def update_params_fields)
  show "fst (UpdateReplication_update a e n w)
         \<noteq> Some (Inl (UsageError ''Invalid replication update interval setting.''))"
    unfolding run by (simp add: update_loop_no_usage_error)
qed

theorem rate_limit_guard_witness:
  "str_contains ''download.geofabrik.de'' ''https://download.geofabrik.de/europe-updates'' \<and>
   UpdateReplication_update
     (demo_args (demo_config ''https://download.geofabrik.de/europe-updates'' 86399) True True)
     (demo_env CHANGED) 5 initial_world
     = (Some (Inl (UsageError ''Invalid replication update interval setting.'')),
        initial_world\<lparr>trace := [LogFatal interval_too_low_message]\<rparr>) \<and>
   fst (UpdateReplication_update
     (demo_args (demo_config ''https://download.geofabrik.de/europe-updates'' 86400) True True)
     (demo_env CHANGED) 5 initial_world)
     \<noteq> Some (Inl (UsageError ''Invalid replication update interval setting.'')) \<and>
   \<not> str_contains ''download.geofabrik.de'' ''https://planet.openstreetmap.org/replication/minute'' \<and>
   fst (UpdateReplication_update
     (demo_args (demo_config ''https://planet.openstreetmap.org/replication/minute'' 60) True True)
     (demo_env CHANGED) 5 initial_world)
     \<noteq> Some (Inl (UsageError ''Invalid replication update interval setting.''))"
proof -
  let ?low = "demo_args (demo_config ''https://download.geofabrik.de/europe-updates'' 86399) True True"
  let ?daily = "demo_args (demo_config ''https://download.geofabrik.de/europe-updates'' 86400) True True"
  let ?planet = "demo_args (demo_config ''https://planet.openstreetmap.org/replication/minute'' 60) True True"
  have named: "str_contains ''download.geofabrik.de'' ''https://download.geofabrik.de/europe-updates''"
    by simp
  have other: "\<not> str_contains ''download.geofabrik.de'' ''https://planet.openstreetmap.org/replication/minute''"
    by simp
  have "str_contains ''download.geofabrik.de'' (REPLICATION_URL (config ?low)) \<and>
      REPLICATION_UPDATE_INTERVAL (config ?low) < 86400"
    using named by (simp add: demo_args_def demo_config_def)
  with rate_limit_guard [of ?low "demo_env CHANGED" 5 initial_world]
  have "UpdateReplication_update ?low (demo_env CHANGED) 5 initial_world =
      (Some (Inl (UsageError ''Invalid replication update interval setting.'')),
       emit (LogFatal interval_too_low_message) initial_world)"
    by blast
  then have low: "UpdateReplication_update ?low (demo_env CHANGED) 5 initial_world =
      (Some (Inl (UsageError ''Invalid replication update interval setting.'')),
       initial_world\<lparr>trace := [LogFatal interval_too_low_message]\<rparr>)"
    by (simp add: emit_def initial_world_def)
  have "\<not> str_contains ''download.geofabrik.de'' (REPLICATION_URL (config ?daily)) \<or>
      86400 \<le> REPLICATION_UPDATE_INTERVAL (config ?daily)"
    by (simp add: demo_args_def demo_config_def)
  with rate_limit_guard [of ?daily "demo_env CHANGED" 5 initial_world]
  have daily: "fst (UpdateReplication_update ?daily (demo_env CHANGED) 5 initial_world)
      \<noteq> Some (Inl (UsageError ''Invalid replication update interval setting.''))"
    by blast
  have "\<not> str_contains ''download.geofabrik.de'' (REPLICATION_URL (config ?planet)) \<or>
      86400 \<le> REPLICATION_UPDATE_INTERVAL (config ?planet)"
    using other by (simp add: demo_args_def demo_config_def)
  with rate_limit_guard [of ?planet "demo_env CHANGED" 5 initial_world]
  have planet: "fst (UpdateReplication_update ?planet (demo_env CHANGED) 5 initial_world)
      \<noteq> Some (Inl (UsageError ''Invalid replication update interval setting.''))"
    by blast
  from named other low daily planet show ?thesis by blast
qed

text \<open>
  C3 as it is stated speaks of the host that the URL names. With an interval of 60
  seconds, a URL of another host that has the provider's name in its path is refused, and
  a URL that names the provider's host in capital letters is let through: the single run
  with it returns the value of its outcome.
\<close>

theorem rate_limit_host_counterexample:
  "url_host ''https://mirror.example.org/download.geofabrik.de/europe-updates''
     = ''mirror.example.org'' \<and>
   fst (UpdateReplication_update
     (demo_args (demo_config ''https://mirror.example.org/download.geofabrik.de/europe-updates'' 60)
        True True)
     (demo_env CHANGED) (Suc 0) initial_world)
     = Some (Inl (UsageError ''Invalid replication update interval setting.'')) \<and>
   url_host ''https://DOWNLOAD.GEOFABRIK.DE/europe-updates'' = ''download.geofabrik.de'' \<and>
   fst (UpdateReplication_update
     (demo_args (demo_config ''https://DOWNLOAD.GEOFABRIK.DE/europe-updates'' 60) True True)
     (demo_env CHANGED) (Suc 0) initial_world)
     = Some (Inr 0)"
proof -
  let ?mirror = "demo_args
    (demo_config ''https://mirror.example.org/download.geofabrik.de/europe-updates'' 60) True True"
  let ?capitals = "demo_args (demo_config ''https://DOWNLOAD.GEOFABRIK.DE/europe-updates'' 60) True True"
  have mirror_host: "url_host ''https://mirror.example.org/download.geofabrik.de/europe-updates''
      = ''mirror.example.org''"
    by (simp add: url_host_def lower_char_def)
  have capitals_host: "url_host ''https://DOWNLOAD.GEOFABRIK.DE/europe-updates'' = ''download.geofabrik.de''"
    by (simp add: url_host_def lower_char_def)
  have "str_contains ''download.geofabrik.de''
      ''https://mirror.example.org/download.geofabrik.de/europe-updates''"
    by simp
  then have refused: "fst (UpdateReplication_update ?mirror (demo_env CHANGED) (Suc 0) initial_world)
      = Some (Inl (UsageError ''Invalid replication update interval setting.''))"
    by (simp add: UpdateReplication_update_def Let_def update_params_fields demo_args_def
        demo_config_def del: update_loop.simps str_contains.simps)
  have "\<not> str_contains ''download.geofabrik.de'' ''https://DOWNLOAD.GEOFABRIK.DE/europe-updates''"
    by simp
  then have "\<not> (str_contains ''download.geofabrik.de'' (REPLICATION_URL (config ?capitals)) \<and>
      REPLICATION_UPDATE_INTERVAL (config ?capitals) < 86400)"
    by (simp add: demo_args_def demo_config_def del: str_contains.simps)
  moreover have "once ?capitals \<or> do_index ?capitals"
    by (simp add: demo_args_def)
  ultimately have "UpdateReplication_update ?capitals (demo_env CHANGED) (Suc 0) initial_world =
      update_loop ?capitals (demo_env CHANGED) (update_params ?capitals)
        (if once ?capitals then None
         else Some (REPLICATION_RECHECK_INTERVAL (config ?capitals))) (Suc 0) initial_world"
    by (rule update_runs_loop)
  moreover have "update_outcome (demo_env CHANGED) (update_calls initial_world) = CHANGED"
    "do_index ?capitals" "once ?capitals"
    by (simp_all add: demo_env_def demo_args_def)
  ultimately have passed: "fst (UpdateReplication_update ?capitals (demo_env CHANGED) (Suc 0) initial_world)
      = Some (Inr 0)"
    by (simp add: update_loop_Suc loop_body_changed_index demo_env_def del: update_loop.simps)
  from mirror_host refused capitals_host passed show ?thesis by blast
qed

text \<open>
  C4. Continuous mode with indexing disabled fails with a usage error before the loop
  starts: that of the interval when the first check refuses the configuration, and
  ``Bad argument '--no-index'.'' otherwise, after the fatal log entry and nothing else.
  Continuous mode with indexing enabled, and single-run mode with or without indexing,
  pass this check: the command then is the loop unless the first check refused the
  configuration, and the usage error of \<^verbatim>\<open>--no-index\<close> is not its result.
\<close>

theorem continuous_needs_indexing:
  "(\<not> once a \<and> \<not> do_index a \<longrightarrow>
      UpdateReplication_update a e n w =
        (if str_contains ''download.geofabrik.de'' (REPLICATION_URL (config a)) \<and>
            REPLICATION_UPDATE_INTERVAL (config a) < 86400
         then (Some (Inl (UsageError ''Invalid replication update interval setting.'')),
               emit (LogFatal interval_too_low_message) w)
         else (Some (Inl (UsageError ''Bad argument '--no-index'.'')),
               emit (LogFatal ''Indexing cannot be disabled when running updates continuously.'') w))) \<and>
   (once a \<or> do_index a \<longrightarrow>
      fst (UpdateReplication_update a e n w) \<noteq> Some (Inl (UsageError ''Bad argument '--no-index'.'')) \<and>
      UpdateReplication_update a e n w =
        (if str_contains ''download.geofabrik.de'' (REPLICATION_URL (config a)) \<and>
            REPLICATION_UPDATE_INTERVAL (config a) < 86400
         then (Some (Inl (UsageError ''Invalid replication update interval setting.'')),
               emit (LogFatal interval_too_low_message) w)
         else update_loop a e (update_params a)
                (if once a then None else Some (REPLICATION_RECHECK_INTERVAL (config a))) n w))"
proof (intro conjI impI)
  assume "\<not> once a \<and> \<not> do_index a"
  then show "UpdateReplication_update a e n w =
        (if str_contains ''download.geofabrik.de'' (REPLICATION_URL (config a)) \<and>
            REPLICATION_UPDATE_INTERVAL (config a) < 86400
         then (Some (Inl (UsageError ''Invalid replication update interval setting.'')),
               emit (LogFatal interval_too_low_message) w)
         else (Some (Inl (UsageError ''Bad argument '--no-index'.'')),
               emit (LogFatal ''Indexing cannot be disabled when running updates continuously.'') w))"
    by (simp add: UpdateReplication_update_def Let_def update_params_fields)
next
  assume ok: "once a \<or> do_index a"
  then show run: "UpdateReplication_update a e n w =
        (if str_contains ''download.geofabrik.de'' (REPLICATION_URL (config a)) \<and>
            REPLICATION_UPDATE_INTERVAL (config a) < 86400
         then (Some (Inl (UsageError ''Invalid replication update interval setting.'')),
               emit (LogFatal interval_too_low_message) w)
         else update_loop a e (update_params a)
                (if once a then None else Some (REPLICATION_RECHECK_INTERVAL (config a))) n w)"
    by (auto simp add: UpdateReplication_update_def Let_def update_params_fields)
  show "fst (UpdateReplication_update a e n w) \<noteq> Some (Inl (UsageError ''Bad argument '--no-index'.''))"
    unfolding run by (simp add: update_loop_no_usage_error)
qed

theorem continuous_needs_indexing_witness:
  "UpdateReplication_update
     (demo_args (demo_config ''https://planet.openstreetmap.org/replication/minute'' 60) False False)
     (demo_env CHANGED) 5 initial_world
     = (Some (Inl (UsageError ''Bad argument '--no-index'.'')),
        initial_world\<lparr>trace :=
          [LogFatal ''Indexing cannot be disabled when running updates continuously.'']\<rparr>) \<and>
   fst (UpdateReplication_update continuous_args (demo_env CHANGED) 5 initial_world)
     \<noteq> Some (Inl (UsageError ''Bad argument '--no-index'.'')) \<and>
   fst (UpdateReplication_update (single_run_args False) (demo_env CHANGED) 5 initial_world)
     \<noteq> Some (Inl (UsageError ''Bad argument '--no-index'.'')) \<and>
   fst (UpdateReplication_update (single_run_args True) (demo_env CHANGED) 5 initial_world)
     \<noteq> Some (Inl (UsageError ''Bad argument '--no-index'.''))"
proof -
  let ?bad = "demo_args (demo_config ''https://planet.openstreetmap.org/replication/minute'' 60) False False"
  have bad: "\<not> once ?bad \<and> \<not> do_index ?bad"
    by (simp add: demo_args_def)
  have "\<not> (str_contains ''download.geofabrik.de'' (REPLICATION_URL (config ?bad)) \<and>
      REPLICATION_UPDATE_INTERVAL (config ?bad) < 86400)"
    by (simp add: demo_args_def demo_config_def)
  with bad continuous_needs_indexing [of ?bad "demo_env CHANGED" 5 initial_world]
  have "UpdateReplication_update ?bad (demo_env CHANGED) 5 initial_world =
      (Some (Inl (UsageError ''Bad argument '--no-index'.'')),
       emit (LogFatal ''Indexing cannot be disabled when running updates continuously.'') initial_world)"
    by presburger
  then have refused: "UpdateReplication_update ?bad (demo_env CHANGED) 5 initial_world =
      (Some (Inl (UsageError ''Bad argument '--no-index'.'')),
       initial_world\<lparr>trace :=
         [LogFatal ''Indexing cannot be disabled when running updates continuously.'']\<rparr>)"
    by (simp add: emit_def initial_world_def)
  have "once continuous_args \<or> do_index continuous_args"
    by (simp add: continuous_args_def demo_args_def)
  with continuous_needs_indexing [of continuous_args "demo_env CHANGED" 5 initial_world]
  have continuous: "fst (UpdateReplication_update continuous_args (demo_env CHANGED) 5 initial_world)
      \<noteq> Some (Inl (UsageError ''Bad argument '--no-index'.''))"
    by blast
  have "once (single_run_args b) \<or> do_index (single_run_args b)" for b
    by (simp add: single_run_args_def demo_args_def)
  with continuous_needs_indexing [of "single_run_args b" "demo_env CHANGED" 5 initial_world for b]
  have single: "fst (UpdateReplication_update (single_run_args b) (demo_env CHANGED) 5 initial_world)
      \<noteq> Some (Inl (UsageError ''Bad argument '--no-index'.''))" for b
    by blast
  from refused continuous single show ?thesis by blast
qed

subsection \<open>Running once\<close>

text \<open>
  C5. In single-run mode, whatever the apply call returns, the loop ends after exactly one
  pass: followed for one pass or more, it has returned the value of the outcome of that
  pass and the world is the one that the pass leaves. The pass makes one apply call, the
  indexing calls when the outcome is not \<^verbatim>\<open>NO_CHANGES\<close> and indexing is enabled, and
  does not sleep. When the check of the update interval lets the configuration through,
  that value is what \<^verbatim>\<open>_update\<close> returns, the exit code of the command.
\<close>

theorem single_run_terminates:
  assumes "once a"
  shows "update_loop a e p r (Suc n) w =
      (Some (Inr (state_value e (update_outcome e (update_calls w)))), snd (loop_body a e p r w)) \<and>
    filter is_apply (iteration_events a e p r w) =
      [ReplicationUpdate (connections w) p (update_outcome e (update_calls w))] \<and>
    filter is_indexing (iteration_events a e p r w) =
      (if update_outcome e (update_calls w) \<noteq> NO_CHANGES \<and> do_index a
       then [NewIndexer (get_libpq_dsn (config a)) (py_or (args.threads a) 1),
             IndexBoundaries 0 30, IndexByRank 0 30]
       else []) \<and>
    filter is_sleep (iteration_events a e p r w) = [] \<and>
    (\<not> (str_contains ''download.geofabrik.de'' (REPLICATION_URL (config a)) \<and>
         REPLICATION_UPDATE_INTERVAL (config a) < 86400) \<longrightarrow>
       UpdateReplication_update a e (Suc n) w =
         (Some (Inr (state_value e (update_outcome e (update_calls w)))),
          snd (loop_body a e (update_params a) None w)))"
proof -
  have ctl: "fst (loop_body a e q x w) = Inr (Break (update_outcome e (update_calls w)))" for q x
    using assms
    by (cases rule: loop_body_cases [where e=e and w=w and a=a])
      (simp_all add: loop_body_no_changes loop_body_changed_no_index loop_body_changed_index)
  have stops: "update_loop a e q x (Suc n) w =
      (Some (Inr (state_value e (update_outcome e (update_calls w)))), snd (loop_body a e q x w))"
    for q x
    by (simp add: update_loop_Suc ctl del: update_loop.simps)
  have applies: "filter is_apply (iteration_events a e p r w) =
      [ReplicationUpdate (connections w) p (update_outcome e (update_calls w))]"
    by (cases rule: loop_body_cases [where e=e and w=w and a=a])
      (simp_all add: iteration_events_eq assms)
  have indexes: "filter is_indexing (iteration_events a e p r w) =
      (if update_outcome e (update_calls w) \<noteq> NO_CHANGES \<and> do_index a
       then [NewIndexer (get_libpq_dsn (config a)) (py_or (args.threads a) 1),
             IndexBoundaries 0 30, IndexByRank 0 30]
       else [])"
    by (cases rule: loop_body_cases [where e=e and w=w and a=a])
      (simp_all add: iteration_events_eq assms)
  have no_sleep: "filter is_sleep (iteration_events a e p r w) = []"
    by (cases rule: loop_body_cases [where e=e and w=w and a=a])
      (simp_all add: iteration_events_eq assms)
  have command: "UpdateReplication_update a e (Suc n) w =
         (Some (Inr (state_value e (update_outcome e (update_calls w)))),
          snd (loop_body a e (update_params a) None w))"
    if "\<not> (str_contains ''download.geofabrik.de'' (REPLICATION_URL (config a)) \<and>
         REPLICATION_UPDATE_INTERVAL (config a) < 86400)"
  proof -
    have "UpdateReplication_update a e (Suc n) w = update_loop a e (update_params a) None (Suc n) w"
      using assms that
      by (auto simp add: UpdateReplication_update_def Let_def update_params_fields
          simp del: update_loop.simps)
    then show ?thesis by (simp only: stops)
  qed
  from stops [of p r] applies indexes no_sleep command show ?thesis by blast
qed

theorem single_run_terminates_witness:
  "once (single_run_args True) \<and>
   \<not> (str_contains ''download.geofabrik.de'' (REPLICATION_URL (config (single_run_args True))) \<and>
      REPLICATION_UPDATE_INTERVAL (config (single_run_args True)) < 86400) \<and>
   fst (UpdateReplication_update (single_run_args True) (demo_env CHANGED) (Suc 0) initial_world)
     = Some (Inr 0) \<and>
   fst (UpdateReplication_update (single_run_args True) (demo_env NO_CHANGES) (Suc 6) initial_world)
     = Some (Inr 3) \<and>
   filter is_indexing (iteration_events (single_run_args True) (demo_env CHANGED)
      (update_params (single_run_args True)) None initial_world) =
     [NewIndexer ''dbname=nominatim'' 1, IndexBoundaries 0 30, IndexByRank 0 30]"
proof -
  have single: "once (single_run_args True)"
    by (simp add: single_run_args_def demo_args_def)
  have valid: "\<not> (str_contains ''download.geofabrik.de'' (REPLICATION_URL (config (single_run_args True))) \<and>
      REPLICATION_UPDATE_INTERVAL (config (single_run_args True)) < 86400)"
    by (simp add: single_run_args_def demo_args_def demo_config_def)
  note changed = single_run_terminates [OF single,
      of "demo_env CHANGED" "update_params (single_run_args True)" None 0 initial_world]
  note idle = single_run_terminates [OF single,
      of "demo_env NO_CHANGES" "update_params (single_run_args True)" None 6 initial_world]
  have "fst (UpdateReplication_update (single_run_args True) (demo_env CHANGED) (Suc 0) initial_world)
      = Some (Inr (state_value (demo_env CHANGED)
          (update_outcome (demo_env CHANGED) (update_calls initial_world))))"
    using changed valid by simp
  then have exit_changed:
    "fst (UpdateReplication_update (single_run_args True) (demo_env CHANGED) (Suc 0) initial_world)
      = Some (Inr 0)"
    by (simp add: demo_env_def)
  have "fst (UpdateReplication_update (single_run_args True) (demo_env NO_CHANGES) (Suc 6) initial_world)
      = Some (Inr (state_value (demo_env NO_CHANGES)
          (update_outcome (demo_env NO_CHANGES) (update_calls initial_world))))"
    using idle valid by simp
  then have exit_idle:
    "fst (UpdateReplication_update (single_run_args True) (demo_env NO_CHANGES) (Suc 6) initial_world)
      = Some (Inr 3)"
    by (simp add: demo_env_def)
  have "filter is_indexing (iteration_events (single_run_args True) (demo_env CHANGED)
      (update_params (single_run_args True)) None initial_world) =
      (if update_outcome (demo_env CHANGED) (update_calls initial_world) \<noteq> NO_CHANGES \<and>
          do_index (single_run_args True)
       then [NewIndexer (get_libpq_dsn (config (single_run_args True)))
               (py_or (args.threads (single_run_args True)) 1),
             IndexBoundaries 0 30, IndexByRank 0 30]
       else [])"
    using changed by blast
  then have indexed: "filter is_indexing (iteration_events (single_run_args True) (demo_env CHANGED)
      (update_params (single_run_args True)) None initial_world) =
     [NewIndexer ''dbname=nominatim'' 1, IndexBoundaries 0 30, IndexByRank 0 30]"
    by (simp add: demo_env_def single_run_args_def demo_args_def demo_config_def py_or_def)
  from single valid exit_changed exit_idle indexed show ?thesis by blast
qed

subsection \<open>The report\<close>

text \<open>
  C6, amended. With the start of the pass at \<open>T0\<close>, the start of indexing five seconds
  later, the clock at \<open>T0\<close> plus twenty seconds when the report is made and a batch date a
  hundred seconds before \<open>T0\<close>, the report shows an import of 5 seconds, an indexing of
  15 seconds, a total of 20 seconds and a backlog of 120 seconds: the backlog is the time of
  the report less the batch date. In general the four durations are the differences of
  section 4.3 of the specification, each through \<^verbatim>\<open>round_time\<close>, and the indexing
  duration is there exactly when \<^verbatim>\<open>start_index\<close> is set. \<^verbatim>\<open>round_time\<close> cuts
  a duration of less than \<open>2 ^ 34\<close> seconds, either way from zero, to whole seconds
  towards zero: it rounds down a duration that is not negative and up one that is
  negative.
\<close>

theorem report_durations:
  "(clock e (clock_reads w) = T0 + seconds 20 \<longrightarrow>
      new_events w (UpdateReplication_report_update e (T0 - seconds 100) T0 (Some (T0 + seconds 5)) w)
        = [Now (T0 + seconds 20),
           LogUpdateCompleted (seconds 5) (Some (seconds 15)) (seconds 20) (seconds 120)]) \<and>
   new_events w (UpdateReplication_report_update e batchdate start_import start_index w)
     = [Now (clock e (clock_reads w)),
        LogUpdateCompleted
          (round_time ((case start_index of Some i \<Rightarrow> i | None \<Rightarrow> clock e (clock_reads w)) - start_import))
          (map_option (\<lambda>i. round_time (clock e (clock_reads w) - i)) start_index)
          (round_time (clock e (clock_reads w) - start_import))
          (round_time (clock e (clock_reads w) - batchdate))] \<and>
   (0 \<le> d \<and> d < seconds (2 ^ 34) \<longrightarrow>
      round_time d = seconds (d div 1000000) \<and> round_time d \<le> d \<and> d < round_time d + seconds 1) \<and>
   (d < 0 \<and> - seconds (2 ^ 34) < d \<longrightarrow>
      round_time d = - seconds ((- d) div 1000000) \<and> d \<le> round_time d \<and> round_time d < d + seconds 1)"
proof -
  have general: "new_events w (UpdateReplication_report_update e b s x w)
     = [Now (clock e (clock_reads w)),
        LogUpdateCompleted
          (round_time ((case x of Some i \<Rightarrow> i | None \<Rightarrow> clock e (clock_reads w)) - s))
          (map_option (\<lambda>i. round_time (clock e (clock_reads w) - i)) x)
          (round_time (clock e (clock_reads w) - s))
          (round_time (clock e (clock_reads w) - b))]" for b s x
    by (cases x)
      (simp_all add: UpdateReplication_report_update_def new_events_def now_def emit_def)
  have differences: "T0 + seconds 5 - T0 = seconds 5"
    "T0 + seconds 20 - (T0 + seconds 5) = seconds 15"
    "T0 + seconds 20 - T0 = seconds 20"
    "T0 + seconds 20 - (T0 - seconds 100) = seconds 120"
    by (simp_all add: seconds_def)
  have scenario: "new_events w
        (UpdateReplication_report_update e (T0 - seconds 100) T0 (Some (T0 + seconds 5)) w)
      = [Now (T0 + seconds 20),
         LogUpdateCompleted (seconds 5) (Some (seconds 15)) (seconds 20) (seconds 120)]"
    if "clock e (clock_reads w) = T0 + seconds 20"
    unfolding general that option.case map_option_case differences
    by (simp add: round_time_seconds)
  have floor: "round_time x = seconds (x div 1000000)" if "0 \<le> x" "x < seconds (2 ^ 34)" for x
    using that by (simp add: round_time_floor seconds_def)
  have enclosed: "seconds (x div 1000000) \<le> x \<and> x < seconds (x div 1000000) + seconds 1" for x
  proof -
    have "x mod 1000000 < 1000000" "0 \<le> x mod 1000000" by simp_all
    moreover have "x = x div 1000000 * 1000000 + x mod 1000000" by simp
    ultimately show ?thesis unfolding seconds_def by linarith
  qed
  have up: "round_time d = seconds (d div 1000000) \<and> round_time d \<le> d \<and>
      d < round_time d + seconds 1"
    if "0 \<le> d" "d < seconds (2 ^ 34)"
    using floor [OF that] enclosed [of d] by simp
  have down: "round_time d = - seconds ((- d) div 1000000) \<and> d \<le> round_time d \<and>
      round_time d < d + seconds 1"
    if "d < 0" "- seconds (2 ^ 34) < d"
  proof -
    from that have "0 \<le> - d" "- d < seconds (2 ^ 34)" by simp_all
    from floor [OF this] have "round_time (- d) = seconds ((- d) div 1000000)" .
    then have "round_time d = - seconds ((- d) div 1000000)"
      using round_time_minus [of d] by simp
    with enclosed [of "- d"] show ?thesis by simp
  qed
  from general [of batchdate start_import start_index] scenario up down
  show ?thesis by blast
qed

theorem report_durations_witness:
  "clock (demo_env CHANGED) (clock_reads (initial_world\<lparr>clock_reads := 16\<rparr>)) = 100000000 + seconds 20 \<and>
   new_events (initial_world\<lparr>clock_reads := 16\<rparr>)
     (UpdateReplication_report_update (demo_env CHANGED) (100000000 - seconds 100) 100000000
        (Some (100000000 + seconds 5)) (initial_world\<lparr>clock_reads := 16\<rparr>))
     = [Now 120000000, LogUpdateCompleted 5000000 (Some 15000000) 20000000 120000000] \<and>
   round_time 7500000 = seconds 7 \<and>
   round_time (- 7500000) = - seconds 7"
proof -
  have at: "clock (demo_env CHANGED) (clock_reads (initial_world\<lparr>clock_reads := 16\<rparr>)) = 100000000 + seconds 20"
    by (simp add: demo_env_def seconds_def)
  note up = report_durations [of "demo_env CHANGED" "initial_world\<lparr>clock_reads := 16\<rparr>" 100000000
      0 0 None 7500000]
  note down = report_durations [of "demo_env CHANGED" "initial_world\<lparr>clock_reads := 16\<rparr>" 100000000
      0 0 None "- 7500000"]
  from up at
  have "new_events (initial_world\<lparr>clock_reads := 16\<rparr>)
     (UpdateReplication_report_update (demo_env CHANGED) (100000000 - seconds 100) 100000000
        (Some (100000000 + seconds 5)) (initial_world\<lparr>clock_reads := 16\<rparr>))
     = [Now (100000000 + seconds 20),
        LogUpdateCompleted (seconds 5) (Some (seconds 15)) (seconds 20) (seconds 120)]"
    by blast
  then have report: "new_events (initial_world\<lparr>clock_reads := 16\<rparr>)
     (UpdateReplication_report_update (demo_env CHANGED) (100000000 - seconds 100) 100000000
        (Some (100000000 + seconds 5)) (initial_world\<lparr>clock_reads := 16\<rparr>))
     = [Now 120000000, LogUpdateCompleted 5000000 (Some 15000000) 20000000 120000000]"
    by (simp add: seconds_def)
  have "(0::int) \<le> 7500000 \<and> 7500000 < seconds (2 ^ 34)"
    by (simp add: seconds_def)
  with up have "round_time 7500000 = seconds (7500000 div 1000000)" by blast
  then have positive: "round_time 7500000 = seconds 7" by simp
  have "(- 7500000 :: int) < 0 \<and> - seconds (2 ^ 34) < - 7500000"
    by (simp add: seconds_def)
  with down have "round_time (- 7500000) = - seconds ((- (- 7500000)) div 1000000)" by blast
  then have negative: "round_time (- 7500000) = - seconds 7" by simp
  from at report positive negative show ?thesis by blast
qed

text \<open>
  C6 as it is stated gives the backlog as 100 seconds. At \<open>T0\<close> = 100 seconds the report
  is not the one the claim describes.
\<close>

theorem report_backlog_counterexample:
  "clock (demo_env CHANGED) (clock_reads (initial_world\<lparr>clock_reads := 16\<rparr>)) = 100000000 + seconds 20 \<and>
   new_events (initial_world\<lparr>clock_reads := 16\<rparr>)
     (UpdateReplication_report_update (demo_env CHANGED) (100000000 - seconds 100) 100000000
        (Some (100000000 + seconds 5)) (initial_world\<lparr>clock_reads := 16\<rparr>))
     \<noteq> [Now (100000000 + seconds 20),
         LogUpdateCompleted (seconds 5) (Some (seconds 15)) (seconds 20) (seconds 100)]"
  by (simp add: demo_env_def initial_world_def UpdateReplication_report_update_def new_events_def
      now_def emit_def round_time_floor seconds_def)

subsection \<open>Connections\<close>

text \<open>
  C8. Every pass of the loop begins by opening a connection. Of the events of a pass, the
  openings and closings of connections, the indexer calls and the sleep are these, in
  this order: the first connection is opened and closed; when indexing runs, the indexer
  is built and its two phases run, and then a second connection is opened and closed for
  the status writes; when the pass sleeps (it found no changes, in continuous mode, and
  \<^verbatim>\<open>time.sleep\<close> accepts the interval), it sleeps last. So the connection used for
  apply and the status reads is closed before indexing begins, the status writes after
  indexing have a connection of their own, and no connection is open across indexing or
  across the sleep. The tracker confirms it: a pass on its own, and the whole trace of a
  run of the command from an empty trace, however long it is followed, never open a
  connection twice, use a connection that is not open, or index or sleep with a
  connection open, and end with no connection open.
\<close>

theorem connections_not_held:
  "take 1 (iteration_events a e p r v) = [Connect (get_libpq_dsn (config a)) (connections v)] \<and>
   filter (\<lambda>ev. is_open_or_close ev \<or> is_indexing ev \<or> is_sleep ev) (iteration_events a e p r v) =
     [Connect (get_libpq_dsn (config a)) (connections v), Close (connections v)]
     @ (if update_outcome e (update_calls v) \<noteq> NO_CHANGES \<and> do_index a
        then [NewIndexer (get_libpq_dsn (config a)) (py_or (args.threads a) 1),
              IndexBoundaries 0 30, IndexByRank 0 30,
              Connect (get_libpq_dsn (config a)) (Suc (connections v)),
              Close (Suc (connections v))]
        else [])
     @ (if update_outcome e (update_calls v) = NO_CHANGES \<and> \<not> once a
        then (case r of
                None \<Rightarrow> []
              | Some i \<Rightarrow> if 0 \<le> i \<and> i \<le> 9223372036 then [Sleep i] else [])
        else []) \<and>
   map_option snd (conn_track [] [] (iteration_events a e p r v)) = Some [] \<and>
   (trace w = [] \<longrightarrow>
      map_option snd (conn_track [] [] (trace (snd (UpdateReplication_update a e n w)))) = Some [])"
proof (intro conjI impI)
  show "take 1 (iteration_events a e p r v) = [Connect (get_libpq_dsn (config a)) (connections v)]"
    by (cases rule: loop_body_cases [where e=e and w=v and a=a])
      (simp_all add: iteration_events_eq)
  show "filter (\<lambda>ev. is_open_or_close ev \<or> is_indexing ev \<or> is_sleep ev) (iteration_events a e p r v) =
     [Connect (get_libpq_dsn (config a)) (connections v), Close (connections v)]
     @ (if update_outcome e (update_calls v) \<noteq> NO_CHANGES \<and> do_index a
        then [NewIndexer (get_libpq_dsn (config a)) (py_or (args.threads a) 1),
              IndexBoundaries 0 30, IndexByRank 0 30,
              Connect (get_libpq_dsn (config a)) (Suc (connections v)),
              Close (Suc (connections v))]
        else [])
     @ (if update_outcome e (update_calls v) = NO_CHANGES \<and> \<not> once a
        then (case r of
                None \<Rightarrow> []
              | Some i \<Rightarrow> if 0 \<le> i \<and> i \<le> 9223372036 then [Sleep i] else [])
        else [])"
    by (cases rule: loop_body_cases [where e=e and w=v and a=a])
      (simp_all add: iteration_events_eq split: option.splits)
  from iteration_tracked [of "[]" v a e p r]
  show "map_option snd (conn_track [] [] (iteration_events a e p r v)) = Some []"
    by auto
next
  assume "trace w = []"
  then have "tracked w []" by (simp add: tracked_def)
  from update_tracked [OF this, of a e n]
  show "map_option snd (conn_track [] [] (trace (snd (UpdateReplication_update a e n w)))) = Some []"
    by (auto simp add: tracked_def)
qed

theorem connections_not_held_witness:
  "trace initial_world = [] \<and>
   map_option snd (conn_track [] []
     (trace (snd (UpdateReplication_update continuous_args (demo_env CHANGED) 3 initial_world))))
     = Some [] \<and>
   filter (\<lambda>ev. is_open_or_close ev \<or> is_indexing ev \<or> is_sleep ev)
     (iteration_events continuous_args (demo_env CHANGED) (update_params continuous_args)
        (Some 900) initial_world)
     = [Connect ''dbname=nominatim'' 0, Close 0,
        NewIndexer ''dbname=nominatim'' 1, IndexBoundaries 0 30, IndexByRank 0 30,
        Connect ''dbname=nominatim'' 1, Close 1] \<and>
   filter (\<lambda>ev. is_open_or_close ev \<or> is_indexing ev \<or> is_sleep ev)
     (iteration_events continuous_args (demo_env NO_CHANGES) (update_params continuous_args)
        (Some 900) initial_world)
     = [Connect ''dbname=nominatim'' 0, Close 0, Sleep 900]"
proof -
  have start: "trace initial_world = []"
    by (simp add: initial_world_def)
  note changed = connections_not_held [of continuous_args "demo_env CHANGED"
      "update_params continuous_args" "Some 900" initial_world initial_world 3]
  note idle = connections_not_held [of continuous_args "demo_env NO_CHANGES"
      "update_params continuous_args" "Some 900" initial_world initial_world 3]
  from changed start
  have run: "map_option snd (conn_track [] []
     (trace (snd (UpdateReplication_update continuous_args (demo_env CHANGED) 3 initial_world))))
     = Some []"
    by blast
  from changed
  have "filter (\<lambda>ev. is_open_or_close ev \<or> is_indexing ev \<or> is_sleep ev)
     (iteration_events continuous_args (demo_env CHANGED) (update_params continuous_args)
        (Some 900) initial_world) =
     [Connect (get_libpq_dsn (config continuous_args)) (connections initial_world),
      Close (connections initial_world)]
     @ (if update_outcome (demo_env CHANGED) (update_calls initial_world) \<noteq> NO_CHANGES \<and>
           do_index continuous_args
        then [NewIndexer (get_libpq_dsn (config continuous_args))
                (py_or (args.threads continuous_args) 1),
              IndexBoundaries 0 30, IndexByRank 0 30,
              Connect (get_libpq_dsn (config continuous_args)) (Suc (connections initial_world)),
              Close (Suc (connections initial_world))]
        else [])
     @ (if update_outcome (demo_env CHANGED) (update_calls initial_world) = NO_CHANGES \<and>
           \<not> once continuous_args
        then (case Some 900 of
                None \<Rightarrow> []
              | Some i \<Rightarrow> if 0 \<le> i \<and> i \<le> 9223372036 then [Sleep i] else [])
        else [])"
    by blast
  then have indexing: "filter (\<lambda>ev. is_open_or_close ev \<or> is_indexing ev \<or> is_sleep ev)
     (iteration_events continuous_args (demo_env CHANGED) (update_params continuous_args)
        (Some 900) initial_world)
     = [Connect ''dbname=nominatim'' 0, Close 0,
        NewIndexer ''dbname=nominatim'' 1, IndexBoundaries 0 30, IndexByRank 0 30,
        Connect ''dbname=nominatim'' 1, Close 1]"
    by (simp add: demo_env_def continuous_args_def demo_args_def demo_config_def
        initial_world_def py_or_def)
  from idle
  have "filter (\<lambda>ev. is_open_or_close ev \<or> is_indexing ev \<or> is_sleep ev)
     (iteration_events continuous_args (demo_env NO_CHANGES) (update_params continuous_args)
        (Some 900) initial_world) =
     [Connect (get_libpq_dsn (config continuous_args)) (connections initial_world),
      Close (connections initial_world)]
     @ (if update_outcome (demo_env NO_CHANGES) (update_calls initial_world) \<noteq> NO_CHANGES \<and>
           do_index continuous_args
        then [NewIndexer (get_libpq_dsn (config continuous_args))
                (py_or (args.threads continuous_args) 1),
              IndexBoundaries 0 30, IndexByRank 0 30,
              Connect (get_libpq_dsn (config continuous_args)) (Suc (connections initial_world)),
              Close (Suc (connections initial_world))]
        else [])
     @ (if update_outcome (demo_env NO_CHANGES) (update_calls initial_world) = NO_CHANGES \<and>
           \<not> once continuous_args
        then (case Some 900 of
                None \<Rightarrow> []
              | Some i \<Rightarrow> if 0 \<le> i \<and> i \<le> 9223372036 then [Sleep i] else [])
        else [])"
    by blast
  then have sleeping: "filter (\<lambda>ev. is_open_or_close ev \<or> is_indexing ev \<or> is_sleep ev)
     (iteration_events continuous_args (demo_env NO_CHANGES) (update_params continuous_args)
        (Some 900) initial_world)
     = [Connect ''dbname=nominatim'' 0, Close 0, Sleep 900]"
    by (simp add: demo_env_def continuous_args_def demo_args_def demo_config_def
        initial_world_def)
  from start run indexing sleeping show ?thesis by blast
qed

end
